theory Spec2Isabelle
  imports Complex_Main
begin

section \<open>Numbers\<close>

text \<open>
  A JavaScript number is a double: a finite value, one of the two infinities or
  \<^verbatim>\<open>NaN\<close>. The operations below follow IEEE 754 on the special values and on
  overflow: a result whose exact value has magnitude \<open>2^1024 - 2^970\<close> or more is an
  infinity, and \<^verbatim>\<open>Infinity / Infinity\<close> and \<^verbatim>\<open>Infinity - Infinity\<close> are
  \<^verbatim>\<open>NaN\<close>. Inside the range a result keeps its exact value: rounding to 53 bits,
  underflow and the sign of zero are not modelled.
\<close>

datatype double = DFin real | DPosInf | DNegInf | DNaN

definition huge :: real where
  "huge = 2 ^ 1024 - 2 ^ 970"

definition ovf :: "real \<Rightarrow> double" where
  "ovf r = (if huge \<le> r then DPosInf else if r \<le> - huge then DNegInf else DFin r)"

fun dneg :: "double \<Rightarrow> double" where
  "dneg (DFin a) = DFin (- a)"
| "dneg DPosInf = DNegInf"
| "dneg DNegInf = DPosInf"
| "dneg DNaN = DNaN"

text \<open>\<^verbatim>\<open>x + y\<close> and \<^verbatim>\<open>x - y\<close>.\<close>

fun dadd :: "double \<Rightarrow> double \<Rightarrow> double" where
  "dadd DNaN y = DNaN"
| "dadd x DNaN = DNaN"
| "dadd (DFin a) (DFin b) = ovf (a + b)"
| "dadd DPosInf DNegInf = DNaN"
| "dadd DNegInf DPosInf = DNaN"
| "dadd (DFin a) y = y"
| "dadd x y = x"

definition dsub :: "double \<Rightarrow> double \<Rightarrow> double" where
  "dsub x y = dadd x (dneg y)"

text \<open>\<^verbatim>\<open>x / y\<close>; a zero divisor counts as \<^verbatim>\<open>+0\<close>.\<close>

fun ddiv :: "double \<Rightarrow> double \<Rightarrow> double" where
  "ddiv DNaN y = DNaN"
| "ddiv x DNaN = DNaN"
| "ddiv (DFin a) (DFin b) =
     (if b = 0 then (if a = 0 then DNaN else if 0 < a then DPosInf else DNegInf)
      else ovf (a / b))"
| "ddiv (DFin a) y = DFin 0"
| "ddiv x (DFin b) = (if 0 \<le> b then x else dneg x)"
| "ddiv x y = DNaN"

text \<open>\<^verbatim>\<open>Math.abs\<close>, and \<^verbatim>\<open>Math.max\<close> and \<^verbatim>\<open>Math.min\<close> of two arguments: \<^verbatim>\<open>NaN\<close>
  if an argument is \<^verbatim>\<open>NaN\<close>.\<close>

fun Math_abs :: "double \<Rightarrow> double" where
  "Math_abs (DFin a) = DFin \<bar>a\<bar>"
| "Math_abs DPosInf = DPosInf"
| "Math_abs DNegInf = DPosInf"
| "Math_abs DNaN = DNaN"

fun dle :: "double \<Rightarrow> double \<Rightarrow> bool" where
  "dle (DFin a) (DFin b) = (a \<le> b)"
| "dle DNegInf y = True"
| "dle x DPosInf = True"
| "dle x y = False"

definition Math_max :: "double \<Rightarrow> double \<Rightarrow> double" where
  "Math_max x y = (if x = DNaN \<or> y = DNaN then DNaN else if dle x y then y else x)"

definition Math_min :: "double \<Rightarrow> double \<Rightarrow> double" where
  "Math_min x y = (if x = DNaN \<or> y = DNaN then DNaN else if dle x y then x else y)"

section \<open>JavaScript values\<close>

text \<open>
  The front end (\<^verbatim>\<open>src/static/js/app.js\<close>) works on JSON data and form strings.
  A value is a number (finite, or one of the three others, which
  \<^verbatim>\<open>Number.isFinite\<close> tells apart from every finite one), \<^verbatim>\<open>null\<close>,
  \<^verbatim>\<open>undefined\<close>, a boolean, a string, or an object or function, of which nothing
  more is looked at.
\<close>

datatype jsval =
    JNum real
  | JNaN
  | JPosInf
  | JNegInf
  | JNull
  | JUndefined
  | JBool bool
  | JStr string
  | JObject

fun ofDouble :: "double \<Rightarrow> jsval" where
  "ofDouble (DFin a) = JNum a"
| "ofDouble DPosInf = JPosInf"
| "ofDouble DNegInf = JNegInf"
| "ofDouble DNaN = JNaN"

text \<open>\<^verbatim>\<open>const isNum = (x) => typeof x === "number" && Number.isFinite(x);\<close>\<close>

fun isNum :: "jsval \<Rightarrow> bool" where
  "isNum (JNum r) = True"
| "isNum v = False"

text \<open>JavaScript truthiness (\<^verbatim>\<open>!x\<close>, \<^verbatim>\<open>x || y\<close>, \<^verbatim>\<open>if (x)\<close>).\<close>

fun truthy :: "jsval \<Rightarrow> bool" where
  "truthy (JNum r) = (r \<noteq> 0)"
| "truthy JNaN = False"
| "truthy JPosInf = True"
| "truthy JNegInf = True"
| "truthy JNull = False"
| "truthy JUndefined = False"
| "truthy (JBool b) = b"
| "truthy (JStr s) = (s \<noteq> [])"
| "truthy JObject = True"

section \<open>Flip-risk estimator\<close>

text \<open>\<^verbatim>\<open>const clamp = (v, lo, hi) => Math.max(lo, Math.min(hi, v));\<close>\<close>

definition clamp :: "double \<Rightarrow> double \<Rightarrow> double \<Rightarrow> double" where
  "clamp v lo hi = Math_max lo (Math_min hi v)"

text \<open>\<^verbatim>\<open>Math.min(...d)\<close> on a non-empty array, first element apart.\<close>

definition mathMin :: "double \<Rightarrow> double list \<Rightarrow> double" where
  "mathMin d ds = fold Math_min ds d"

text \<open>
  \<^verbatim>\<open>nearestBoundaryDistance(val, lo, hi)\<close>: \<^verbatim>\<open>null\<close> (here \<open>None\<close>) when the value
  is no finite number or no bound is one, else the least of the distances
  \<^verbatim>\<open>Math.abs(val - lo)\<close> and \<^verbatim>\<open>Math.abs(val - hi)\<close> that were pushed.
\<close>

definition boundDist :: "real \<Rightarrow> jsval \<Rightarrow> double list" where
  "boundDist v b = (case b of JNum x \<Rightarrow> [Math_abs (dsub (DFin v) (DFin x))] | _ \<Rightarrow> [])"

definition nearestBoundaryDistance :: "jsval \<Rightarrow> jsval \<Rightarrow> jsval \<Rightarrow> double option" where
  "nearestBoundaryDistance val lo hi =
     (case val of
        JNum v \<Rightarrow>
          (case boundDist v lo @ boundDist v hi of
             [] \<Rightarrow> None
           | d # ds \<Rightarrow> Some (mathMin d ds))
      | _ \<Rightarrow> None)"

text \<open>The threshold object \<^verbatim>\<open>th: {min?, max?}\<close>; \<^verbatim>\<open>th?.min\<close> of a missing object is
  \<^verbatim>\<open>undefined\<close>.\<close>

record bounds =
  th_min :: jsval
  th_max :: jsval

definition optMin :: "bounds option \<Rightarrow> jsval" where
  "optMin th = (case th of None \<Rightarrow> JUndefined | Some t \<Rightarrow> th_min t)"

definition optMax :: "bounds option \<Rightarrow> jsval" where
  "optMax th = (case th of None \<Rightarrow> JUndefined | Some t \<Rightarrow> th_max t)"

text \<open>The climatology entry of a factor; only \<^verbatim>\<open>pct_of_normal\<close> is read here.\<close>

record climatology =
  pct_of_normal :: jsval

text \<open>
  The two tweak parameters, \<^verbatim>\<open>tweakUp\<close> and \<^verbatim>\<open>tweakDown\<close>, set by two independent
  \<^verbatim>\<open>if\<close> statements when the climatology entry is there and its percentage is a
  finite number.
\<close>

definition tweakUp :: "climatology option \<Rightarrow> real" where
  "tweakUp climForFactor =
     (case climForFactor of
        None \<Rightarrow> 0
      | Some c \<Rightarrow>
          (case pct_of_normal c of
             JNum pct \<Rightarrow> (if pct > 130 \<or> pct < 70 then 1 / 10 else 0)
           | _ \<Rightarrow> 0))"

definition tweakDown :: "climatology option \<Rightarrow> real" where
  "tweakDown climForFactor =
     (case climForFactor of
        None \<Rightarrow> 0
      | Some c \<Rightarrow>
          (case pct_of_normal c of
             JNum pct \<Rightarrow> (if pct \<le> 110 \<and> pct \<ge> 90 then 1 / 10 else 0)
           | _ \<Rightarrow> 0))"

definition eps :: real where
  "eps = 1 / 1000000"

text \<open>The neighbours \<^verbatim>\<open>prev\<close> and \<^verbatim>\<open>next\<close> of index \<open>i\<close>: the array entry when it
  exists and is a finite number, else \<^verbatim>\<open>null\<close>.\<close>

definition prevOf :: "jsval list \<Rightarrow> nat \<Rightarrow> jsval" where
  "prevOf arr i = (if i > 0 \<and> isNum (arr ! (i - 1)) then arr ! (i - 1) else JNull)"

definition nextOf :: "jsval list \<Rightarrow> nat \<Rightarrow> jsval" where
  "nextOf arr i = (if i + 1 < length arr \<and> isNum (arr ! (i + 1)) then arr ! (i + 1) else JNull)"

text \<open>\<^verbatim>\<open>let slope = 0; if (isNum(prev)) slope = Math.max(slope, Math.abs(v - prev));
  if (isNum(next)) slope = Math.max(slope, Math.abs(next - v));\<close>\<close>

definition slopeAt :: "real \<Rightarrow> jsval \<Rightarrow> jsval \<Rightarrow> double" where
  "slopeAt v prev next =
     (let slope = DFin 0;
          slope = (case prev of
                     JNum p \<Rightarrow> Math_max slope (Math_abs (dsub (DFin v) (DFin p)))
                   | _ \<Rightarrow> slope);
          slope = (case next of
                     JNum n \<Rightarrow> Math_max slope (Math_abs (dsub (DFin n) (DFin v)))
                   | _ \<Rightarrow> slope)
      in slope)"

text \<open>The two conditional assignments to \<^verbatim>\<open>p\<close> after the first one.\<close>

definition nudge :: "real \<Rightarrow> real \<Rightarrow> double \<Rightarrow> double" where
  "nudge up down p0 =
     (let p = p0;
          p = (if up \<noteq> 0 then clamp (dadd p (DFin up)) (DFin 0) (DFin 1) else p);
          p = (if down \<noteq> 0 then clamp (dsub p (DFin down)) (DFin 0) (DFin 1) else p)
      in p)"

text \<open>One pass of the loop body: the value stored in \<^verbatim>\<open>out[i]\<close>, for \<open>i\<close> below the
  length of the array.\<close>

definition flipAt :: "jsval list \<Rightarrow> bounds option \<Rightarrow> real \<Rightarrow> real \<Rightarrow> nat \<Rightarrow> jsval" where
  "flipAt arr th up down i =
     (case arr ! i of
        JNum v \<Rightarrow>
          (let slope = slopeAt v (prevOf arr i) (nextOf arr i)
           in case nearestBoundaryDistance (JNum v) (optMin th) (optMax th) of
                None \<Rightarrow> JNull
              | Some dst \<Rightarrow>
                  ofDouble
                    (nudge up down (clamp (ddiv slope (dadd dst (DFin eps))) (DFin 0) (DFin 1))))
      | _ \<Rightarrow> JNull)"

text \<open>\<^verbatim>\<open>for (let i = 0; i < arr.length; i++) { ... out[i] = ...; }\<close>\<close>

function flipLoop ::
  "jsval list \<Rightarrow> bounds option \<Rightarrow> real \<Rightarrow> real \<Rightarrow> nat \<Rightarrow> jsval list \<Rightarrow> jsval list" where
  "flipLoop arr th up down i out =
     (if i < length arr
      then flipLoop arr th up down (i + 1) (out[i := flipAt arr th up down i])
      else out)"
  by pat_completeness auto
termination
  by (relation "measure (\<lambda>(arr, th, up, down, i, out). length arr - i)") auto

declare flipLoop.simps [simp del]

text \<open>
  \<^verbatim>\<open>fallbackFlipSeries(values, th, climForFactor)\<close>. \<^verbatim>\<open>values || []\<close>: a missing
  series (\<open>None\<close>) is the empty array.
\<close>

definition orEmpty :: "jsval list option \<Rightarrow> jsval list" where
  "orEmpty values = (case values of None \<Rightarrow> [] | Some a \<Rightarrow> a)"

definition fallbackFlipSeries ::
  "jsval list option \<Rightarrow> bounds option \<Rightarrow> climatology option \<Rightarrow> jsval list" where
  "fallbackFlipSeries values th climForFactor =
     (let arr = orEmpty values;
          out = replicate (length arr) JNull
      in flipLoop arr th (tweakUp climForFactor) (tweakDown climForFactor) 0 out)"

subsection \<open>The estimator as the specification words it\<close>

text \<open>
  The specification's reading of one hour, in exact arithmetic, to be compared with
  \<open>fallbackFlipSeries\<close>: the slope is the largest of \<open>|v - previous|\<close> and
  \<open>|v - next|\<close> over the defined neighbours (0 without any), the distance is the least
  of \<open>|v - min|\<close> and \<open>|v - max|\<close> over the defined bounds, the raw probability is
  their quotient with \<open>\<epsilon> = 1e-6\<close> added to the distance, clamped to \<open>[0, 1]\<close>; an
  unusual climatology (above 130 or below 70) adds 0.1, a near-normal one (within 90
  and 110) takes 0.1 away, with a clamp to \<open>[0, 1]\<close> after each.
\<close>

definition spec_clamp01 :: "real \<Rightarrow> real" where
  "spec_clamp01 x = (if x < 0 then 0 else if 1 < x then 1 else x)"

definition spec_neighbours :: "jsval list \<Rightarrow> nat \<Rightarrow> real \<Rightarrow> real list" where
  "spec_neighbours arr i v =
     (if 0 < i then (case arr ! (i - 1) of JNum p \<Rightarrow> [\<bar>v - p\<bar>] | _ \<Rightarrow> []) else [])
     @ (if i + 1 < length arr then (case arr ! (i + 1) of JNum n \<Rightarrow> [\<bar>v - n\<bar>] | _ \<Rightarrow> [])
        else [])"

definition spec_slope :: "jsval list \<Rightarrow> nat \<Rightarrow> real \<Rightarrow> real" where
  "spec_slope arr i v =
     (if spec_neighbours arr i v = [] then 0 else Max (set (spec_neighbours arr i v)))"

definition spec_bounds :: "bounds option \<Rightarrow> real \<Rightarrow> real list" where
  "spec_bounds th v =
     (case optMin th of JNum lo \<Rightarrow> [\<bar>v - lo\<bar>] | _ \<Rightarrow> [])
     @ (case optMax th of JNum hi \<Rightarrow> [\<bar>v - hi\<bar>] | _ \<Rightarrow> [])"

definition spec_dist :: "bounds option \<Rightarrow> real \<Rightarrow> real" where
  "spec_dist th v = Min (set (spec_bounds th v))"

definition spec_pct :: "climatology option \<Rightarrow> real option" where
  "spec_pct clim =
     (case clim of
        None \<Rightarrow> None
      | Some c \<Rightarrow> (case pct_of_normal c of JNum x \<Rightarrow> Some x | _ \<Rightarrow> None))"

definition spec_nudge :: "climatology option \<Rightarrow> real \<Rightarrow> real" where
  "spec_nudge clim p =
     (case spec_pct clim of
        None \<Rightarrow> p
      | Some pct \<Rightarrow>
          (let p1 = (if pct > 130 \<or> pct < 70 then spec_clamp01 (p + 1 / 10) else p);
               p2 = (if 90 \<le> pct \<and> pct \<le> 110 then spec_clamp01 (p1 - 1 / 10) else p1)
           in p2))"

definition spec_flip :: "jsval list \<Rightarrow> bounds option \<Rightarrow> climatology option \<Rightarrow> nat \<Rightarrow> real \<Rightarrow> real" where
  "spec_flip arr th clim i v =
     spec_nudge clim (spec_clamp01 (spec_slope arr i v / (spec_dist th v + 1 / 1000000)))"

text \<open>The magnitude up to which no difference of two numbers overflows.\<close>

definition safeMagnitude :: real where
  "safeMagnitude = 2 ^ 1023 - 2 ^ 970"

definition withinSafe :: "jsval \<Rightarrow> bool" where
  "withinSafe x = (case x of JNum r \<Rightarrow> \<bar>r\<bar> \<le> safeMagnitude | _ \<Rightarrow> True)"

section \<open>Condition-box colouring\<close>

text \<open>
  \<^verbatim>\<open>function colorFromBoolMix(allTrue, anyFalse, anyUnknown)\<close>, with its comment
  \<^verbatim>\<open>// red if any false, green only if all true, yellow if mixed/unknown\<close>.
  The third parameter is not read.
\<close>

definition colorFromBoolMix :: "bool \<Rightarrow> bool \<Rightarrow> bool \<Rightarrow> string" where
  "colorFromBoolMix allTrue anyFalse anyUnknown =
     (if anyFalse then ''bad'' else if allTrue then ''good'' else ''warn'')"

text \<open>
  An hour's map is an object parsed from JSON: a partial map from its own keys to
  their values. \<^verbatim>\<open>key in m\<close> and \<^verbatim>\<open>m[key]\<close> also find what every object inherits
  from \<^verbatim>\<open>Object.prototype\<close>, functions and objects under the names below.
\<close>

definition objectPrototypeKeys :: "string list" where
  "objectPrototypeKeys =
     [''constructor'', ''hasOwnProperty'', ''isPrototypeOf'', ''propertyIsEnumerable'',
      ''toLocaleString'', ''toString'', ''valueOf'', ''__proto__'',
      ''__defineGetter__'', ''__defineSetter__'', ''__lookupGetter__'', ''__lookupSetter__'']"

definition hasProperty :: "(string \<rightharpoonup> jsval) \<Rightarrow> string \<Rightarrow> bool" where
  "hasProperty m key = (m key \<noteq> None \<or> key \<in> set objectPrototypeKeys)"

definition getProperty :: "(string \<rightharpoonup> jsval) \<Rightarrow> string \<Rightarrow> jsval" where
  "getProperty m key =
     (case m key of
        Some v \<Rightarrow> v
      | None \<Rightarrow> if key \<in> set objectPrototypeKeys then JObject else JUndefined)"

text \<open>
  The loop of \<^verbatim>\<open>factorColor\<close> over the per-hour maps, on the three flags
  \<open>(allTrue, anyFalse, anyUnknown)\<close>. A missing key sets \<open>anyUnknown\<close> and goes on to
  the next hour (\<^verbatim>\<open>continue\<close>).
\<close>

fun factorFlags ::
  "string \<Rightarrow> (string \<rightharpoonup> jsval) list \<Rightarrow> bool \<times> bool \<times> bool \<Rightarrow> bool \<times> bool \<times> bool" where
  "factorFlags key [] flags = flags"
| "factorFlags key (m # ms) (allTrue, anyFalse, anyUnknown) =
     (if \<not> hasProperty m key then factorFlags key ms (allTrue, anyFalse, True)
      else
        (let v = getProperty m key
         in factorFlags key ms
              (if v \<noteq> JBool True then False else allTrue,
               if v = JBool False then True else anyFalse,
               anyUnknown)))"

text \<open>\<^verbatim>\<open>factorColor(key)\<close> inside \<^verbatim>\<open>renderConditions\<close>; \<open>perHour\<close> is
  \<^verbatim>\<open>j.hourly_factor_ok || []\<close>.\<close>

definition factorColor :: "string \<Rightarrow> (string \<rightharpoonup> jsval) list \<Rightarrow> string" where
  "factorColor key perHour =
     (if length perHour = 0 then ''warn''
      else (case factorFlags key perHour (True, False, False) of
              (allTrue, anyFalse, anyUnknown) \<Rightarrow> colorFromBoolMix allTrue anyFalse anyUnknown))"

section \<open>Coordinates\<close>

text \<open>
  The remainder operator \<^verbatim>\<open>%\<close> of JavaScript on finite numbers with a non-zero
  divisor: the quotient is truncated towards zero, so the result has the sign of the
  dividend.
\<close>

definition js_trunc :: "real \<Rightarrow> int" where
  "js_trunc x = (if 0 \<le> x then \<lfloor>x\<rfloor> else \<lceil>x\<rceil>)"

definition js_rem :: "real \<Rightarrow> real \<Rightarrow> real" where
  "js_rem a n = a - n * of_int (js_trunc (a / n))"

record coords =
  lat :: real
  lon :: real

text \<open>
  \<^verbatim>\<open>normalizeCoords(lat, lon)\<close>, on the numbers of a map click
  (\<^verbatim>\<open>Number\<close> is the identity on them).
\<close>

definition normalizeCoords :: "real \<Rightarrow> real \<Rightarrow> coords" where
  "normalizeCoords lat0 lon0 =
     (let la = max (- 90) (min 90 lat0);
          lo = js_rem (lon0 + 180) 360 - 180
      in \<lparr> lat = la, lon = lo \<rparr>)"

section \<open>Reading numbers from form controls\<close>

text \<open>
  \<^verbatim>\<open>Number(v)\<close> on a string, held as its UTF-8 bytes. White space is trimmed at
  both ends: the ASCII characters tab, line feed, vertical tab, form feed, carriage
  return and space, and the others of JavaScript (U+00A0, U+1680, U+2000 to U+200A,
  U+2028, U+2029, U+202F, U+205F, U+3000, U+FEFF), each by its byte sequence. The empty
  string is 0; then comes an optional sign before \<^verbatim>\<open>Infinity\<close> or a decimal literal
  (digits, an optional fraction, an optional exponent), or an unsigned literal in
  base 16, 8 or 2; anything else is \<^verbatim>\<open>NaN\<close>. A literal beyond the range of doubles
  is an infinity; inside the range it keeps its exact value.
\<close>

definition whiteSeqs :: "string list" where
  "whiteSeqs =
     [[CHR 0x09], [CHR 0x0A], [CHR 0x0B], [CHR 0x0C], [CHR 0x0D], [CHR 0x20],
      [CHR 0xC2, CHR 0xA0],
      [CHR 0xE1, CHR 0x9A, CHR 0x80],
      [CHR 0xE2, CHR 0x80, CHR 0x80], [CHR 0xE2, CHR 0x80, CHR 0x81],
      [CHR 0xE2, CHR 0x80, CHR 0x82], [CHR 0xE2, CHR 0x80, CHR 0x83],
      [CHR 0xE2, CHR 0x80, CHR 0x84], [CHR 0xE2, CHR 0x80, CHR 0x85],
      [CHR 0xE2, CHR 0x80, CHR 0x86], [CHR 0xE2, CHR 0x80, CHR 0x87],
      [CHR 0xE2, CHR 0x80, CHR 0x88], [CHR 0xE2, CHR 0x80, CHR 0x89],
      [CHR 0xE2, CHR 0x80, CHR 0x8A],
      [CHR 0xE2, CHR 0x80, CHR 0xA8], [CHR 0xE2, CHR 0x80, CHR 0xA9],
      [CHR 0xE2, CHR 0x80, CHR 0xAF],
      [CHR 0xE2, CHR 0x81, CHR 0x9F],
      [CHR 0xE3, CHR 0x80, CHR 0x80],
      [CHR 0xEF, CHR 0xBB, CHR 0xBF]]"

text \<open>Dropping the white space at the head of a string; \<open>seqs\<close> are the byte
  sequences to drop, of one to three bytes.\<close>

fun dropWhite :: "string list \<Rightarrow> string \<Rightarrow> string" where
  "dropWhite seqs (a # b # c # s) =
     (if [a] \<in> set seqs then dropWhite seqs (b # c # s)
      else if [a, b] \<in> set seqs then dropWhite seqs (c # s)
      else if [a, b, c] \<in> set seqs then dropWhite seqs s
      else a # b # c # s)"
| "dropWhite seqs [a, b] =
     (if [a] \<in> set seqs then dropWhite seqs [b]
      else if [a, b] \<in> set seqs then []
      else [a, b])"
| "dropWhite seqs [a] = (if [a] \<in> set seqs then [] else [a])"
| "dropWhite seqs [] = []"

definition trimWhite :: "string \<Rightarrow> string" where
  "trimWhite s = rev (dropWhite (map rev whiteSeqs) (rev (dropWhite whiteSeqs s)))"

definition digitValue :: "char \<Rightarrow> nat option" where
  "digitValue = map_of
     [(CHR ''0'', 0), (CHR ''1'', 1), (CHR ''2'', 2), (CHR ''3'', 3), (CHR ''4'', 4),
      (CHR ''5'', 5), (CHR ''6'', 6), (CHR ''7'', 7), (CHR ''8'', 8), (CHR ''9'', 9),
      (CHR ''a'', 10), (CHR ''b'', 11), (CHR ''c'', 12), (CHR ''d'', 13), (CHR ''e'', 14),
      (CHR ''f'', 15),
      (CHR ''A'', 10), (CHR ''B'', 11), (CHR ''C'', 12), (CHR ''D'', 13), (CHR ''E'', 14),
      (CHR ''F'', 15)]"

definition isDec :: "char \<Rightarrow> bool" where
  "isDec c = (case digitValue c of Some d \<Rightarrow> d < 10 | None \<Rightarrow> False)"

fun digits :: "nat \<Rightarrow> nat \<Rightarrow> string \<Rightarrow> nat option" where
  "digits base acc [] = Some acc"
| "digits base acc (c # cs) =
     (case digitValue c of
        Some d \<Rightarrow> (if d < base then digits base (acc * base + d) cs else None)
      | None \<Rightarrow> None)"

definition signedDigits :: "int \<Rightarrow> string \<Rightarrow> int option" where
  "signedDigits sg u =
     (if u = [] then None else map_option (\<lambda>n. sg * int n) (digits 10 0 u))"

definition exponentPart :: "string \<Rightarrow> int option" where
  "exponentPart r =
     (case r of
        [] \<Rightarrow> Some 0
      | c # t \<Rightarrow>
          (if c = CHR ''e'' \<or> c = CHR ''E'' then
             (case t of
                [] \<Rightarrow> None
              | s # u \<Rightarrow>
                  (if s = CHR ''+'' then signedDigits 1 u
                   else if s = CHR ''-'' then signedDigits (- 1) u
                   else signedDigits 1 t))
           else None))"

definition scale10 :: "real \<Rightarrow> int \<Rightarrow> real" where
  "scale10 m e = (if 0 \<le> e then m * 10 ^ nat e else m / 10 ^ nat (- e))"

definition strUnsignedDecimal :: "string \<Rightarrow> jsval" where
  "strUnsignedDecimal s =
     (if s = ''Infinity'' then JPosInf
      else
        (let ip = takeWhile isDec s;
             r1 = dropWhile isDec s;
             hasDot = (r1 \<noteq> [] \<and> hd r1 = CHR ''.'');
             fp = (if hasDot then takeWhile isDec (tl r1) else []);
             r2 = (if hasDot then dropWhile isDec (tl r1) else r1)
         in if ip = [] \<and> fp = [] then JNaN
            else (case (digits 10 0 ip, digits 10 0 fp, exponentPart r2) of
                    (Some a, Some b, Some e) \<Rightarrow>
                      ofDouble (ovf (scale10 (real a + real b / 10 ^ length fp) e))
                  | _ \<Rightarrow> JNaN)))"

fun negate :: "jsval \<Rightarrow> jsval" where
  "negate (JNum r) = JNum (- r)"
| "negate JPosInf = JNegInf"
| "negate JNegInf = JPosInf"
| "negate v = v"

definition nonDecimal :: "nat \<Rightarrow> string \<Rightarrow> jsval" where
  "nonDecimal base t =
     (if t = [] then JNaN
      else (case digits base 0 t of Some n \<Rightarrow> ofDouble (ovf (real n)) | None \<Rightarrow> JNaN))"

definition Number :: "string \<Rightarrow> jsval" where
  "Number v =
     (case trimWhite v of
        [] \<Rightarrow> JNum 0
      | c # t \<Rightarrow>
          (if c = CHR ''+'' then strUnsignedDecimal t
           else if c = CHR ''-'' then negate (strUnsignedDecimal t)
           else if c = CHR ''0'' \<and> t \<noteq> [] \<and> (hd t = CHR ''x'' \<or> hd t = CHR ''X'')
             then nonDecimal 16 (tl t)
           else if c = CHR ''0'' \<and> t \<noteq> [] \<and> (hd t = CHR ''o'' \<or> hd t = CHR ''O'')
             then nonDecimal 8 (tl t)
           else if c = CHR ''0'' \<and> t \<noteq> [] \<and> (hd t = CHR ''b'' \<or> hd t = CHR ''B'')
             then nonDecimal 2 (tl t)
           else strUnsignedDecimal (c # t)))"

text \<open>
  First script: \<^verbatim>\<open>function num(id)\<close>, on the string \<^verbatim>\<open>val(id)\<close> of the control
  (\<^verbatim>\<open>val\<close> gives a string, so the test \<^verbatim>\<open>v == null\<close> never holds).
\<close>

definition num :: "string \<Rightarrow> jsval" where
  "num v =
     (if v = [] then JNull
      else (let n = Number v in if isNum n then n else JNull))"

text \<open>Second script: \<^verbatim>\<open>function numOrNull(v)\<close>, called by \<^verbatim>\<open>readPrefs\<close> on the
  controls' \<^verbatim>\<open>value\<close>.\<close>

definition numOrNull :: "string \<Rightarrow> jsval" where
  "numOrNull v = (let n = Number v in if isNum n then n else JNull)"

section \<open>The Run button\<close>

text \<open>
  The file holds two scripts, each with its own handler of the Run button. Both read
  the same form; its controls are the fields below (the value of a text or number
  input, the checked state of a check box).
\<close>

record form =
  tripName :: string
  startLocal :: string
  endLocal :: string
  dataSource :: string
  chkPProb :: bool
  chkPAmt :: bool
  chkTemp :: bool
  chkHum :: bool
  chkWind :: bool
  tUnit :: string
  wUnit :: string
  pamtUnit :: string
  pprobMax :: string
  pamtMax :: string
  tMin :: string
  tMax :: string
  hMin :: string
  hMax :: string
  wMin :: string
  wMax :: string

record considerPrefs =
  c_precip_prob :: bool
  c_precip_amt :: bool
  c_temp :: bool
  c_humidity :: bool
  c_wind :: bool

record unitPrefs =
  u_temp :: string
  u_wind :: string
  u_precip_amt :: string

record thresholdPrefs =
  precip_prob_max :: jsval
  precip_amt_max :: jsval
  temp_min :: jsval
  temp_max :: jsval
  humidity_min :: jsval
  humidity_max :: jsval
  wind_min :: jsval
  wind_max :: jsval

record prefs =
  p_consider :: considerPrefs
  p_units :: unitPrefs
  p_thresholds :: thresholdPrefs

text \<open>The body of the POST to \<^verbatim>\<open>/api/plan_trip\<close>; only the second script sends
  \<^verbatim>\<open>data_source\<close>.\<close>

record planBody =
  trip_name :: string
  body_lat :: real
  body_lon :: real
  data_source :: "string option"
  start_local :: string
  end_local :: string
  body_prefs :: prefs

datatype request = PlanTrip planBody | ListTrips

text \<open>
  The fields of a \<^verbatim>\<open>/api/plan_trip\<close> response that decide what the handlers do.
  \<open>r_error\<close> and \<open>r_message\<close> are strings when present; \<open>r_conditions\<close> keeps the
  label of each condition, \<open>r_unideal_spans\<close> the spans of each factor key and
  \<open>r_alt_windows\<close> the direction, start and end of each alternative window.
\<close>

record response =
  r_ok :: jsval
  r_error :: "string option"
  r_message :: "string option"
  r_no_data_for_window :: jsval
  r_window :: "(string \<times> string) option"
  r_conditions :: "string list"
  r_unideal_spans :: "(string \<times> (string \<times> string) list) list"
  r_alt_windows :: "(string \<times> string \<times> string) list"

text \<open>What the request came back with: an exception of \<^verbatim>\<open>fetch\<close> or of the JSON
  parser, with its text, or a JSON object.\<close>

datatype reply = Failed string | Json response

text \<open>
  The content of the result panel \<^verbatim>\<open>#planResult\<close>: nothing, the text
  \<^verbatim>\<open>Evaluating...\<close>, a message in a \<^verbatim>\<open>span\<close> of class \<^verbatim>\<open>bad\<close>, or the report
  rendered from a response.
\<close>

datatype content = Blank | Evaluating | BadSpan string | Report response

text \<open>\<^verbatim>\<open>x || d\<close> on an optional string: a missing or empty \<open>x\<close> gives \<open>d\<close>.\<close>

definition orElse :: "string option \<Rightarrow> string \<Rightarrow> string" where
  "orElse x d = (case x of None \<Rightarrow> d | Some s \<Rightarrow> if s = [] then d else s)"

text \<open>A template literal on an optional string.\<close>

definition template :: "string option \<Rightarrow> string" where
  "template x = (case x of None \<Rightarrow> ''undefined'' | Some s \<Rightarrow> s)"

subsection \<open>First script\<close>

text \<open>
  The state the first handler reads and writes: the slot \<^verbatim>\<open>current\<close>, the error
  panel (if the page has one: whether it is displayed, and its text), the result
  panel, whether the condition and suggestion panels are displayed, and the requests
  sent so far.
\<close>

record ui1 =
  current_lat :: "real option"
  current_lon :: "real option"
  errorPanel1 :: "(bool \<times> string) option"
  planResult1 :: content
  condPanel1 :: bool
  suggestPanel1 :: bool
  sent1 :: "request list"

definition showError1 :: "string \<Rightarrow> ui1 \<Rightarrow> ui1" where
  "showError1 msg st =
     (case errorPanel1 st of
        None \<Rightarrow> st
      | Some p \<Rightarrow> st\<lparr> errorPanel1 := Some (True, ''Error: '' @ msg) \<rparr>)"

definition body1 :: "real \<Rightarrow> real \<Rightarrow> form \<Rightarrow> planBody" where
  "body1 la lo f =
     \<lparr> trip_name = (if tripName f = [] then ''Untitled Trip'' else tripName f),
       body_lat = la, body_lon = lo,
       data_source = None,
       start_local = startLocal f, end_local = endLocal f,
       body_prefs =
         \<lparr> p_consider =
             \<lparr> c_precip_prob = chkPProb f, c_precip_amt = chkPAmt f, c_temp = chkTemp f,
               c_humidity = chkHum f, c_wind = chkWind f \<rparr>,
           p_units = \<lparr> u_temp = tUnit f, u_wind = wUnit f, u_precip_amt = pamtUnit f \<rparr>,
           p_thresholds =
             \<lparr> precip_prob_max = num (pprobMax f), precip_amt_max = num (pamtMax f),
               temp_min = num (tMin f), temp_max = num (tMax f),
               humidity_min = num (hMin f), humidity_max = num (hMax f),
               wind_min = num (wMin f), wind_max = num (wMax f) \<rparr> \<rparr> \<rparr>"

text \<open>The click, up to the call of \<^verbatim>\<open>fetchJSON\<close>.\<close>

definition run1_click :: "ui1 \<Rightarrow> form \<Rightarrow> ui1" where
  "run1_click st f =
     (case (current_lat st, current_lon st) of
        (Some la, Some lo) \<Rightarrow>
          (if startLocal f = [] \<or> endLocal f = []
           then st\<lparr> planResult1 := BadSpan ''Provide a start and end time.'' \<rparr>
           else st\<lparr> planResult1 := Evaluating, sent1 := sent1 st @ [PlanTrip (body1 la lo f)] \<rparr>)
      | _ \<Rightarrow> st\<lparr> planResult1 := BadSpan ''Click the map to choose a location first.'' \<rparr>)"

definition hasSpans :: "response \<Rightarrow> bool" where
  "hasSpans res = list_ex (\<lambda>(k, items). items \<noteq> []) (r_unideal_spans res)"

definition hasAlts :: "response \<Rightarrow> bool" where
  "hasAlts res = (r_alt_windows res \<noteq> [])"

text \<open>\<^verbatim>\<open>renderReport\<close> with \<^verbatim>\<open>renderConditions\<close> and \<^verbatim>\<open>renderSuggestions\<close>: each
  panel is displayed when it has something to show, hidden otherwise.\<close>

definition renderReport1 :: "response \<Rightarrow> ui1 \<Rightarrow> ui1" where
  "renderReport1 res st =
     st\<lparr> planResult1 := Report res,
         condPanel1 := (r_conditions res \<noteq> []),
         suggestPanel1 := (hasSpans res \<or> hasAlts res) \<rparr>"

text \<open>
  The rest of the handler, once the request has come back; \<^verbatim>\<open>refreshTrips\<close> sends
  the request of the trips list. The last branch is the one of a response that
  renders: a time or a time zone that \<^verbatim>\<open>Intl.DateTimeFormat\<close> refuses makes
  \<^verbatim>\<open>renderReport\<close> throw, which is not modelled.
\<close>

definition run1_response :: "ui1 \<Rightarrow> reply \<Rightarrow> ui1" where
  "run1_response st rep =
     (case rep of
        Failed msg \<Rightarrow> (showError1 (''Plan error: '' @ msg) st)\<lparr> planResult1 := BadSpan msg \<rparr>
      | Json json \<Rightarrow>
          (if \<not> truthy (r_ok json) then
             (showError1 (orElse (r_error json) ''Plan failed'') st)
               \<lparr> planResult1 := BadSpan (orElse (r_error json) ''Plan failed''),
                 condPanel1 := False,
                 suggestPanel1 := False \<rparr>
           else if truthy (r_no_data_for_window json) then
             st\<lparr> planResult1 := BadSpan (template (r_message json)),
                 condPanel1 := False,
                 suggestPanel1 := False \<rparr>
           else
             (let st' = renderReport1 json st
              in st'\<lparr> sent1 := sent1 st' @ [ListTrips] \<rparr>)))"

subsection \<open>Second script\<close>

text \<open>
  The state of the second handler: the slot \<^verbatim>\<open>selected\<close>, the error panel (displayed
  or not, and its text), the result panel, whether the condition, suggestion and
  uncertainty panels are displayed, the slot \<^verbatim>\<open>lastResult\<close> and the requests sent.
\<close>

record ui2 =
  selected_lat :: "real option"
  selected_lon :: "real option"
  errorPanel2 :: "bool \<times> string"
  planResult2 :: content
  condPanel2 :: bool
  suggestPanel2 :: bool
  probPanel2 :: bool
  lastResult :: "response option"
  sent2 :: "request list"

definition showError2 :: "string \<Rightarrow> ui2 \<Rightarrow> ui2" where
  "showError2 msg st = st\<lparr> errorPanel2 := (True, msg) \<rparr>"

definition hideError :: "ui2 \<Rightarrow> ui2" where
  "hideError st = st\<lparr> errorPanel2 := (False, []) \<rparr>"

definition readPrefs :: "form \<Rightarrow> prefs" where
  "readPrefs f =
     \<lparr> p_consider =
         \<lparr> c_precip_prob = chkPProb f, c_precip_amt = chkPAmt f, c_temp = chkTemp f,
           c_humidity = chkHum f, c_wind = chkWind f \<rparr>,
       p_units = \<lparr> u_temp = tUnit f, u_wind = wUnit f, u_precip_amt = pamtUnit f \<rparr>,
       p_thresholds =
         \<lparr> precip_prob_max = numOrNull (pprobMax f), precip_amt_max = numOrNull (pamtMax f),
           temp_min = numOrNull (tMin f), temp_max = numOrNull (tMax f),
           humidity_min = numOrNull (hMin f), humidity_max = numOrNull (hMax f),
           wind_min = numOrNull (wMin f), wind_max = numOrNull (wMax f) \<rparr> \<rparr>"

definition payload2 :: "real \<Rightarrow> real \<Rightarrow> form \<Rightarrow> planBody" where
  "payload2 la lo f =
     \<lparr> trip_name = (if tripName f = [] then ''My Trip'' else tripName f),
       body_lat = la, body_lon = lo,
       data_source = Some (dataSource f),
       start_local = startLocal f, end_local = endLocal f,
       body_prefs = readPrefs f \<rparr>"

text \<open>The click, up to the call of \<^verbatim>\<open>fetch\<close>.\<close>

definition run2_click :: "ui2 \<Rightarrow> form \<Rightarrow> ui2" where
  "run2_click st f =
     (case (selected_lat st, selected_lon st) of
        (Some la, Some lo) \<Rightarrow>
          (let st' = hideError st
           in st'\<lparr> sent2 := sent2 st' @ [PlanTrip (payload2 la lo f)] \<rparr>)
      | _ \<Rightarrow> showError2 ''Click on the map to choose a location.'' st)"

text \<open>
  The rest of the handler. A success response is stored in \<^verbatim>\<open>lastResult\<close> before
  the summary reads \<^verbatim>\<open>j.window.start_local\<close>; without a window that read throws,
  and the \<^verbatim>\<open>catch\<close> shows the exception (its text stands for the engine's wording).
  The three renderers display their panels.
\<close>

definition typeErrorText :: string where
  "typeErrorText = ''TypeError: j.window is undefined''"

definition run2_response :: "ui2 \<Rightarrow> reply \<Rightarrow> ui2" where
  "run2_response st rep =
     (case rep of
        Failed e \<Rightarrow> showError2 (''Plan error: '' @ e) st
      | Json j \<Rightarrow>
          (if \<not> truthy (r_ok j) then
             showError2 (orElse (r_message j) ''Plan error.'') st
           else if truthy (r_no_data_for_window j) then
             (showError2 (orElse (r_message j) ''No data available for this window.'') st)
               \<lparr> planResult2 := Blank,
                 condPanel2 := False,
                 suggestPanel2 := False,
                 probPanel2 := False,
                 lastResult := None \<rparr>
           else
             (case r_window j of
                None \<Rightarrow> showError2 (''Plan error: '' @ typeErrorText) (st\<lparr> lastResult := Some j \<rparr>)
              | Some w \<Rightarrow>
                  st\<lparr> lastResult := Some j,
                      planResult2 := Report j,
                      condPanel2 := True,
                      suggestPanel2 := True,
                      probPanel2 := True,
                      sent2 := sent2 st @ [ListTrips] \<rparr>)))"

section \<open>Properties of the flip-risk estimator\<close>

subsection \<open>The loop computes \<open>flipAt\<close> at every index\<close>

lemma flipLoop_length:
  "length (flipLoop arr th up down i out) = length out"
proof (induction arr th up down i out rule: flipLoop.induct)
  case (1 arr th up down i out)
  show ?case
  proof (cases "i < length arr")
    case True
    with "1" show ?thesis by (simp add: flipLoop.simps [of arr th up down i out])
  next
    case False
    then show ?thesis by (simp add: flipLoop.simps [of arr th up down i out])
  qed
qed

lemma flipLoop_nth:
  "length out = length arr \<Longrightarrow> j < length arr \<Longrightarrow>
     flipLoop arr th up down i out ! j = (if i \<le> j then flipAt arr th up down j else out ! j)"
proof (induction arr th up down i out arbitrary: j rule: flipLoop.induct)
  case (1 arr th up down i out)
  show ?case
  proof (cases "i < length arr")
    case True
    have "flipLoop arr th up down i out ! j
            = flipLoop arr th up down (i + 1) (out[i := flipAt arr th up down i]) ! j"
      using True by (simp add: flipLoop.simps [of arr th up down i out])
    also have "\<dots> = (if i + 1 \<le> j then flipAt arr th up down j
                      else (out[i := flipAt arr th up down i]) ! j)"
      using "1.IH" [OF True, of j] "1.prems" by simp
    also have "\<dots> = (if i \<le> j then flipAt arr th up down j else out ! j)"
      using True "1.prems" by (cases "i = j") auto
    finally show ?thesis .
  next
    case False
    with "1.prems" show ?thesis by (simp add: flipLoop.simps [of arr th up down i out])
  qed
qed

lemma fallbackFlipSeries_length:
  "length (fallbackFlipSeries values th clim) = length (orEmpty values)"
  by (simp add: fallbackFlipSeries_def Let_def flipLoop_length)

lemma fallbackFlipSeries_nth:
  "i < length (orEmpty values) \<Longrightarrow>
     fallbackFlipSeries values th clim ! i
       = flipAt (orEmpty values) th (tweakUp clim) (tweakDown clim) i"
  by (simp add: fallbackFlipSeries_def Let_def flipLoop_nth)

lemma nearestBoundaryDistance_None:
  "nearestBoundaryDistance (JNum v) lo hi = None \<longleftrightarrow> \<not> isNum lo \<and> \<not> isNum hi"
  by (cases lo; cases hi) (simp_all add: nearestBoundaryDistance_def boundDist_def)

lemma ofDouble_not_null: "ofDouble d \<noteq> JNull"
  by (cases d) simp_all

lemma flipAt_null:
  "flipAt arr th up down i = JNull
     \<longleftrightarrow> \<not> isNum (arr ! i) \<or> (\<not> isNum (optMin th) \<and> \<not> isNum (optMax th))"
proof (cases "arr ! i")
  case (JNum v)
  then show ?thesis
    using nearestBoundaryDistance_None [of v "optMin th" "optMax th"]
    by (auto simp: flipAt_def Let_def ofDouble_not_null split: option.splits)
qed (simp_all add: flipAt_def)

subsection \<open>Arithmetic on doubles and exact arithmetic\<close>

lemma huge_gt2: "2 < huge"
  by (simp add: huge_def)

lemma safe_double: "2 * safeMagnitude < huge - 1"
  by (simp add: huge_def safeMagnitude_def)

lemma ovf_fin: "\<bar>r\<bar> \<le> 10 ^ 100 \<Longrightarrow> ovf r = DFin r"
proof -
  have "(10::real) ^ 100 < huge" by (simp add: huge_def)
  then show "\<bar>r\<bar> \<le> 10 ^ 100 \<Longrightarrow> ovf r = DFin r"
    by (auto simp: ovf_def)
qed

lemma ovf_pos: "2 * 10 ^ 308 \<le> r \<Longrightarrow> ovf r = DPosInf"
proof -
  have "huge \<le> 2 * 10 ^ 308" by (simp add: huge_def)
  then show "2 * 10 ^ 308 \<le> r \<Longrightarrow> ovf r = DPosInf"
    by (auto simp: ovf_def)
qed

lemma ovf_neg: "r \<le> - (2 * 10 ^ 308) \<Longrightarrow> ovf r = DNegInf"
proof -
  have "huge \<le> 2 * 10 ^ 308" by (simp add: huge_def)
  then show "r \<le> - (2 * 10 ^ 308) \<Longrightarrow> ovf r = DNegInf"
    using huge_gt2 by (auto simp: ovf_def)
qed

lemma small_lt_huge: "x \<le> 10 ^ 100 \<Longrightarrow> x < huge"
proof -
  have "(10::real) ^ 100 < huge" by (simp add: huge_def)
  then show "x \<le> 10 ^ 100 \<Longrightarrow> x < huge" by simp
qed

lemma abs_diff_ovf: "Math_abs (dsub (DFin a) (DFin b)) = ovf \<bar>a - b\<bar>"
  using huge_gt2 by (auto simp: dsub_def ovf_def)

lemma Math_max_ovf: "0 \<le> x \<Longrightarrow> 0 \<le> y \<Longrightarrow> Math_max (ovf x) (ovf y) = ovf (max x y)"
  using huge_gt2 by (auto simp: Math_max_def ovf_def max_def)

lemma Math_min_ovf: "0 \<le> x \<Longrightarrow> 0 \<le> y \<Longrightarrow> Math_min (ovf x) (ovf y) = ovf (min x y)"
  using huge_gt2 by (auto simp: Math_min_def ovf_def min_def)

lemma ovf_zero: "DFin 0 = ovf 0"
  using huge_gt2 by (simp add: ovf_def)

lemma add_eps_ovf: "0 \<le> d \<Longrightarrow> dadd (ovf d) (DFin eps) = ovf (d + eps)"
  using huge_gt2 by (auto simp: ovf_def eps_def)

lemma clamp_fin: "clamp (DFin x) (DFin 0) (DFin 1) = DFin (spec_clamp01 x)"
  by (auto simp: clamp_def Math_max_def Math_min_def spec_clamp01_def)

lemma clamp_posinf: "clamp DPosInf (DFin 0) (DFin 1) = DFin 1"
  by (simp add: clamp_def Math_max_def Math_min_def)

lemma clamp_neginf: "clamp DNegInf (DFin 0) (DFin 1) = DFin 0"
  by (simp add: clamp_def Math_max_def Math_min_def)

lemma clamp_nan: "clamp DNaN (DFin 0) (DFin 1) = DNaN"
  by (simp add: clamp_def Math_max_def Math_min_def)

lemma spec_clamp01_unit: "0 \<le> spec_clamp01 x \<and> spec_clamp01 x \<le> 1"
  by (simp add: spec_clamp01_def)

lemma clamp_ovf: "clamp (ovf x) (DFin 0) (DFin 1) = DFin (spec_clamp01 x)"
  using huge_gt2 by (auto simp: ovf_def clamp_fin clamp_posinf clamp_neginf spec_clamp01_def)

text \<open>The raw probability when the distance does not overflow.\<close>

lemma raw_spec:
  assumes "0 \<le> s" and "0 < e" and "e < huge"
  shows "clamp (ddiv (ovf s) (ovf e)) (DFin 0) (DFin 1) = DFin (spec_clamp01 (s / e))"
proof (cases "huge \<le> s")
  case True
  then have "1 < s / e" using assms by simp
  then have "spec_clamp01 (s / e) = 1" by (simp add: spec_clamp01_def)
  then show ?thesis
    using True assms huge_gt2 by (simp add: ovf_def clamp_posinf)
next
  case False
  then have "ddiv (ovf s) (ovf e) = ovf (s / e)"
    using assms huge_gt2 by (simp add: ovf_def)
  then show ?thesis by (simp add: clamp_ovf)
qed

text \<open>The raw probability when the distance overflows.\<close>

lemma raw_overflow:
  assumes "0 \<le> s" and "huge \<le> e"
  shows "clamp (ddiv (ovf s) (ovf e)) (DFin 0) (DFin 1) = (if huge \<le> s then DNaN else DFin 0)"
  using assms huge_gt2
  by (simp add: ovf_def clamp_nan clamp_fin spec_clamp01_def)

lemma clamp_range:
  "clamp x (DFin 0) (DFin 1) = DNaN \<or> (\<exists>p. clamp x (DFin 0) (DFin 1) = DFin p \<and> 0 \<le> p \<and> p \<le> 1)"
  by (cases x) (simp_all add: clamp_fin clamp_posinf clamp_neginf clamp_nan spec_clamp01_unit)

lemma nudge_range:
  assumes "p = DNaN \<or> (\<exists>q. p = DFin q \<and> 0 \<le> q \<and> q \<le> 1)"
  shows "nudge up down p = DNaN \<or> (\<exists>q. nudge up down p = DFin q \<and> 0 \<le> q \<and> q \<le> 1)"
  using assms clamp_range [of "dadd p (DFin up)"]
    clamp_range [of "dsub p (DFin down)"]
    clamp_range [of "dsub (clamp (dadd p (DFin up)) (DFin 0) (DFin 1)) (DFin down)"]
  by (auto simp: nudge_def Let_def)

lemma tweaks_exclusive: "tweakUp c = 0 \<or> tweakDown c = 0"
  by (auto simp: tweakUp_def tweakDown_def split: option.splits jsval.splits)

lemma nudge_spec:
  assumes "0 \<le> p" and "p \<le> 1"
  shows "nudge (tweakUp clim) (tweakDown clim) (DFin p) = DFin (spec_nudge clim p)"
proof -
  have up: "dadd (DFin p) (DFin (1 / 10)) = DFin (p + 1 / 10)"
    using assms huge_gt2 by (simp add: ovf_def)
  have down: "dsub (DFin q) (DFin (1 / 10)) = DFin (q - 1 / 10)" if "0 \<le> q" "q \<le> 1" for q
    using that huge_gt2 by (simp add: dsub_def ovf_def)
  show ?thesis
    using assms up down [of p] down [of "spec_clamp01 (p + 1 / 10)"] spec_clamp01_unit [of "p + 1 / 10"]
    by (auto simp: nudge_def tweakUp_def tweakDown_def spec_nudge_def spec_pct_def Let_def clamp_fin
        split: option.splits jsval.splits)
qed


subsection \<open>The code against the specification's formula\<close>

lemma prevOf_cases:
  "(prevOf arr i = JNull \<and> (if 0 < i then (case arr ! (i - 1) of JNum p \<Rightarrow> [\<bar>v - p\<bar>] | _ \<Rightarrow> []) else []) = [])
   \<or> (\<exists>p. prevOf arr i = JNum p \<and> (if 0 < i then (case arr ! (i - 1) of JNum p \<Rightarrow> [\<bar>v - p\<bar>] | _ \<Rightarrow> []) else []) = [\<bar>v - p\<bar>])"
  by (cases "arr ! (i - 1)") (simp_all add: prevOf_def)

lemma nextOf_cases:
  "(nextOf arr i = JNull \<and> (if i + 1 < length arr then (case arr ! (i + 1) of JNum n \<Rightarrow> [\<bar>v - n\<bar>] | _ \<Rightarrow> []) else []) = [])
   \<or> (\<exists>n. nextOf arr i = JNum n \<and> (if i + 1 < length arr then (case arr ! (i + 1) of JNum n \<Rightarrow> [\<bar>v - n\<bar>] | _ \<Rightarrow> []) else []) = [\<bar>v - n\<bar>])"
  by (cases "arr ! (i + 1)") (simp_all add: nextOf_def)

lemma slopeAt_spec:
  "slopeAt v (prevOf arr i) (nextOf arr i) = ovf (spec_slope arr i v)
   \<and> 0 \<le> spec_slope arr i v"
proof -
  have m: "Math_max (DFin 0) (ovf \<bar>x\<bar>) = ovf \<bar>x\<bar>" for x :: real
    using Math_max_ovf [of 0 "\<bar>x\<bar>"] by (simp add: ovf_zero)
  have n: "Math_max (ovf \<bar>x\<bar>) (ovf \<bar>y\<bar>) = ovf (max \<bar>x\<bar> \<bar>y\<bar>)" for x y :: real
    using Math_max_ovf [of "\<bar>x\<bar>" "\<bar>y\<bar>"] by simp
  show ?thesis
    unfolding spec_slope_def spec_neighbours_def
    using prevOf_cases [of arr i v] nextOf_cases [of arr i v]
    by (elim disjE conjE exE)
       (simp_all add: slopeAt_def abs_diff_ovf m n abs_minus_commute max.commute ovf_zero [symmetric])
qed

lemma nearestBoundaryDistance_spec:
  "isNum (optMin th) \<or> isNum (optMax th) \<Longrightarrow>
     nearestBoundaryDistance (JNum v) (optMin th) (optMax th) = Some (ovf (spec_dist th v))
     \<and> 0 \<le> spec_dist th v"
proof -
  have n: "Math_min (ovf \<bar>x\<bar>) (ovf \<bar>y\<bar>) = ovf (min \<bar>x\<bar> \<bar>y\<bar>)" for x y :: real
    using Math_min_ovf [of "\<bar>x\<bar>" "\<bar>y\<bar>"] by simp
  assume "isNum (optMin th) \<or> isNum (optMax th)"
  then show ?thesis
    by (cases "optMin th"; cases "optMax th")
       (simp_all add: nearestBoundaryDistance_def boundDist_def spec_dist_def spec_bounds_def
           mathMin_def abs_diff_ovf n min.commute)
qed

text \<open>The stored value when the distance does not overflow: the specification's.\<close>

lemma flipAt_spec:
  assumes "arr ! i = JNum v" and "isNum (optMin th) \<or> isNum (optMax th)"
    and "spec_dist th v + 1 / 1000000 < huge"
  shows "flipAt arr th (tweakUp clim) (tweakDown clim) i = JNum (spec_flip arr th clim i v)"
proof -
  note d = nearestBoundaryDistance_spec [OF assms(2), of v]
  note s = slopeAt_spec [of v arr i]
  have e: "0 < spec_dist th v + eps" "spec_dist th v + eps < huge"
    using d assms(3) by (simp_all add: eps_def)
  have raw: "clamp (ddiv (ovf (spec_slope arr i v)) (dadd (ovf (spec_dist th v)) (DFin eps)))
                (DFin 0) (DFin 1)
             = DFin (spec_clamp01 (spec_slope arr i v / (spec_dist th v + eps)))"
    using raw_spec [of "spec_slope arr i v" "spec_dist th v + eps"] s d e
    by (simp add: add_eps_ovf)
  show ?thesis
    using assms(1) d s raw
      nudge_spec [of "spec_clamp01 (spec_slope arr i v / (spec_dist th v + eps))" clim]
      spec_clamp01_unit [of "spec_slope arr i v / (spec_dist th v + eps)"]
    by (simp add: flipAt_def Let_def spec_flip_def eps_def)
qed

text \<open>The stored value when the distance overflows: 0 before the nudges, or
  \<^verbatim>\<open>NaN\<close> when the slope overflows too.\<close>

lemma flipAt_overflow:
  assumes "arr ! i = JNum v" and "isNum (optMin th) \<or> isNum (optMax th)"
    and "huge \<le> spec_dist th v"
  shows "flipAt arr th up down i
           = (if huge \<le> spec_slope arr i v then JNaN else ofDouble (nudge up down (DFin 0)))"
proof -
  note d = nearestBoundaryDistance_spec [OF assms(2), of v]
  note s = slopeAt_spec [of v arr i]
  have n: "nudge up down DNaN = DNaN"
    by (simp add: nudge_def Let_def dsub_def clamp_nan)
  have raw: "clamp (ddiv (ovf (spec_slope arr i v)) (dadd (ovf (spec_dist th v)) (DFin eps)))
                (DFin 0) (DFin 1)
             = (if huge \<le> spec_slope arr i v then DNaN else DFin 0)"
  proof -
    have "huge \<le> spec_dist th v + eps" using assms(3) by (simp add: eps_def)
    then show ?thesis
      using raw_overflow [of "spec_slope arr i v" "spec_dist th v + eps"] s d
      by (simp add: add_eps_ovf)
  qed
  show ?thesis
    using assms(1) d s raw n by (simp add: flipAt_def Let_def)
qed

lemma flipAt_range:
  "flipAt arr th up down i = JNull \<or> flipAt arr th up down i = JNaN
   \<or> (\<exists>p. flipAt arr th up down i = JNum p \<and> 0 \<le> p \<and> p \<le> 1)"
proof (cases "arr ! i")
  case (JNum v)
  show ?thesis
  proof (cases "nearestBoundaryDistance (JNum v) (optMin th) (optMax th)")
    case None
    with JNum show ?thesis by (simp add: flipAt_def)
  next
    case (Some dst)
    let ?p = "nudge up down
                (clamp (ddiv (slopeAt v (prevOf arr i) (nextOf arr i)) (dadd dst (DFin eps)))
                   (DFin 0) (DFin 1))"
    have "flipAt arr th up down i = ofDouble ?p"
      using JNum Some by (simp add: flipAt_def Let_def)
    moreover have "?p = DNaN \<or> (\<exists>q. ?p = DFin q \<and> 0 \<le> q \<and> q \<le> 1)"
      by (rule nudge_range) (rule clamp_range)
    ultimately show ?thesis by auto
  qed
qed (simp_all add: flipAt_def)

lemma withinSafe_dist:
  assumes "withinSafe (JNum v)" and "withinSafe (optMin th)" and "withinSafe (optMax th)"
    and "isNum (optMin th) \<or> isNum (optMax th)"
  shows "spec_dist th v + 1 / 1000000 < huge"
proof -
  have b: "\<bar>v - x\<bar> + 1 / 1000000 < huge" if "\<bar>x\<bar> \<le> safeMagnitude" for x
    using that assms(1) safe_double by (simp add: withinSafe_def)
  show ?thesis
    using assms b
    by (cases "optMin th"; cases "optMax th")
       (auto simp: spec_dist_def spec_bounds_def withinSafe_def min_def)
qed


text \<open>
  Claim C1 gives, at every index with a finite value and a finite threshold, the
  clamped quotient of slope and distance. With the values \<open>1e308\<close> and \<open>-1e308\<close> and
  the minimum \<open>-1e308\<close>, the slope and the distance at index 0 both overflow to
  \<^verbatim>\<open>Infinity\<close>, their quotient is \<^verbatim>\<open>NaN\<close>, and \<^verbatim>\<open>Math.min\<close> and \<^verbatim>\<open>Math.max\<close>
  hand \<^verbatim>\<open>NaN\<close> on: the entry is \<^verbatim>\<open>NaN\<close>, not the number of the formula.
\<close>

theorem fallbackFlipSeries_value_counterexample:
  "fallbackFlipSeries (Some [JNum (10 ^ 308), JNum (- (10 ^ 308))])
      (Some \<lparr> th_min = JNum (- (10 ^ 308)), th_max = JUndefined \<rparr>) None ! 0 = JNaN
   \<and> JNaN \<noteq> JNum (spec_flip [JNum (10 ^ 308), JNum (- (10 ^ 308))]
                     (Some \<lparr> th_min = JNum (- (10 ^ 308)), th_max = JUndefined \<rparr>) None 0
                     (10 ^ 308))"
  by (simp add: fallbackFlipSeries_def orEmpty_def Let_def flipLoop.simps flipAt_def
      numeral_2_eq_2 prevOf_def nextOf_def slopeAt_def nearestBoundaryDistance_def boundDist_def
      mathMin_def optMin_def optMax_def tweakUp_def tweakDown_def nudge_def clamp_def eps_def
      dsub_def ovf_fin ovf_pos ovf_neg Math_max_def Math_min_def)

text \<open>
  Claim C1, amended. At every index whose value is a finite number, with at least one
  of the two thresholds a finite number and the distance to the nearest threshold
  (plus \<open>\<epsilon>\<close>) below the overflow threshold of doubles, \<open>fallbackFlipSeries\<close> returns
  the number the specification describes: the quotient of the local slope and the
  distance plus \<open>\<epsilon>\<close>, clamped to \<open>[0, 1]\<close>, then nudged by the climatology with a
  clamp after each nudge.
\<close>

theorem fallbackFlipSeries_value:
  assumes "i < length arr" and "arr ! i = JNum v"
    and "isNum (optMin th) \<or> isNum (optMax th)"
    and "spec_dist th v + 1 / 1000000 < huge"
  shows "fallbackFlipSeries (Some arr) th clim ! i = JNum (spec_flip arr th clim i v)"
proof -
  have "fallbackFlipSeries (Some arr) th clim ! i
          = flipAt arr th (tweakUp clim) (tweakDown clim) i"
    using assms(1) fallbackFlipSeries_nth [of i "Some arr" th clim] by (simp add: orEmpty_def)
  also have "\<dots> = JNum (spec_flip arr th clim i v)"
    using assms(2-4) by (rule flipAt_spec)
  finally show ?thesis .
qed

theorem fallbackFlipSeries_value_witness:
  "fallbackFlipSeries (Some [JNum 10, JNum 12, JNum 12])
      (Some \<lparr> th_min = JNum 11, th_max = JNum 20 \<rparr>)
      (Some \<lparr> pct_of_normal = JNum 100 \<rparr>) ! 0 = JNum (9 / 10)
   \<and> fallbackFlipSeries (Some [JNum 10, JNum 12, JNum 12])
      (Some \<lparr> th_min = JNum 11, th_max = JNum 20 \<rparr>)
      (Some \<lparr> pct_of_normal = JNum 100 \<rparr>) ! 2 = JNum 0
   \<and> fallbackFlipSeries (Some [JNum 10, JNum 12, JNum 11])
      (Some \<lparr> th_min = JNum 8, th_max = JNull \<rparr>)
      (Some \<lparr> pct_of_normal = JNum 150 \<rparr>) ! 1 = JNum (2000000 / 4000001 + 1 / 10)"
proof -
  let ?th = "Some \<lparr> th_min = JNum 11, th_max = JNum 20 \<rparr>"
  let ?clim = "Some \<lparr> pct_of_normal = JNum 100 \<rparr>"
  let ?th' = "Some \<lparr> th_min = JNum 8, th_max = JNull \<rparr>"
  let ?clim' = "Some \<lparr> pct_of_normal = JNum 150 \<rparr>"
  have h0: "spec_dist ?th 10 + 1 / 1000000 < huge"
    by (rule small_lt_huge) (simp add: spec_dist_def spec_bounds_def optMin_def optMax_def)
  have h2: "spec_dist ?th 12 + 1 / 1000000 < huge"
    by (rule small_lt_huge) (simp add: spec_dist_def spec_bounds_def optMin_def optMax_def)
  have h1: "spec_dist ?th' 12 + 1 / 1000000 < huge"
    by (rule small_lt_huge) (simp add: spec_dist_def spec_bounds_def optMin_def optMax_def)
  have a: "fallbackFlipSeries (Some [JNum 10, JNum 12, JNum 12]) ?th ?clim ! 0 = JNum (9 / 10)"
    using fallbackFlipSeries_value [of 0 "[JNum 10, JNum 12, JNum 12]" 10 ?th ?clim, OF _ _ _ h0]
    by (simp add: optMin_def optMax_def spec_flip_def spec_nudge_def spec_pct_def spec_slope_def
        spec_neighbours_def spec_dist_def spec_bounds_def spec_clamp01_def)
  have b: "fallbackFlipSeries (Some [JNum 10, JNum 12, JNum 12]) ?th ?clim ! 2 = JNum 0"
    using fallbackFlipSeries_value [of 2 "[JNum 10, JNum 12, JNum 12]" 12 ?th ?clim, OF _ _ _ h2]
    by (simp add: optMin_def optMax_def spec_flip_def spec_nudge_def spec_pct_def spec_slope_def
        spec_neighbours_def spec_dist_def spec_bounds_def spec_clamp01_def)
  have c: "fallbackFlipSeries (Some [JNum 10, JNum 12, JNum 11]) ?th' ?clim' ! 1
             = JNum (2000000 / 4000001 + 1 / 10)"
    using fallbackFlipSeries_value [of 1 "[JNum 10, JNum 12, JNum 11]" 12 ?th' ?clim', OF _ _ _ h1]
    by (simp add: optMin_def optMax_def spec_flip_def spec_nudge_def spec_pct_def spec_slope_def
        spec_neighbours_def spec_dist_def spec_bounds_def spec_clamp01_def)
  from a b c show ?thesis by simp
qed

text \<open>
  Claim C4. The output has the length of the input series, and an entry is
  \<^verbatim>\<open>null\<close> exactly when the value there is no finite number or neither threshold
  is a finite number. With a defined bound, a single non-finite value gives
  \<^verbatim>\<open>null\<close> at its own index only.
\<close>

theorem fallbackFlipSeries_null_iff:
  "length (fallbackFlipSeries values th clim) = length (orEmpty values)
   \<and> (\<forall>i < length (orEmpty values).
         fallbackFlipSeries values th clim ! i = JNull
           \<longleftrightarrow> \<not> isNum (orEmpty values ! i)
               \<or> (\<not> isNum (optMin th) \<and> \<not> isNum (optMax th)))"
  by (simp add: fallbackFlipSeries_length fallbackFlipSeries_nth flipAt_null)

theorem fallbackFlipSeries_null_iff_witness:
  "length (fallbackFlipSeries (Some [JNum 1, JNaN, JNum 3])
             (Some \<lparr> th_min = JNum 0, th_max = JUndefined \<rparr>) None) = 3
   \<and> fallbackFlipSeries (Some [JNum 1, JNaN, JNum 3])
         (Some \<lparr> th_min = JNum 0, th_max = JUndefined \<rparr>) None ! 0 \<noteq> JNull
   \<and> fallbackFlipSeries (Some [JNum 1, JNaN, JNum 3])
         (Some \<lparr> th_min = JNum 0, th_max = JUndefined \<rparr>) None ! 1 = JNull
   \<and> fallbackFlipSeries (Some [JNum 1, JNaN, JNum 3])
         (Some \<lparr> th_min = JNum 0, th_max = JUndefined \<rparr>) None ! 2 \<noteq> JNull"
proof -
  let ?th = "Some \<lparr> th_min = JNum 0, th_max = JUndefined \<rparr>"
  let ?out = "fallbackFlipSeries (Some [JNum 1, JNaN, JNum 3]) ?th None"
  note t = fallbackFlipSeries_null_iff [of "Some [JNum 1, JNaN, JNum 3]" ?th None]
  have len: "length ?out = 3"
    using t by (simp add: orEmpty_def)
  have at: "?out ! i = JNull \<longleftrightarrow> \<not> isNum ([JNum 1, JNaN, JNum 3] ! i)" if "i < 3" for i
    using t that by (simp add: orEmpty_def optMin_def optMax_def)
  show ?thesis
    using len at [of 0] at [of 1] at [of 2] by simp
qed

text \<open>
  Claim C5 puts every entry that is not \<^verbatim>\<open>null\<close> between 0 and 1, for every series
  and every threshold. With the values \<open>-1e308\<close> and \<open>1e308\<close> and the maximum
  \<open>1e308\<close>, the entry at index 0 is \<^verbatim>\<open>NaN\<close>: slope and distance overflow, and the
  clamps and the nudge keep the \<^verbatim>\<open>NaN\<close>.
\<close>

theorem fallbackFlipSeries_unit_interval_counterexample:
  "JNaN \<in> set (fallbackFlipSeries (Some [JNum (- (10 ^ 308)), JNum (10 ^ 308)])
                  (Some \<lparr> th_min = JNull, th_max = JNum (10 ^ 308) \<rparr>)
                  (Some \<lparr> pct_of_normal = JNum 150 \<rparr>))
   \<and> \<not> (JNaN = JNull \<or> (\<exists>p. JNaN = JNum p \<and> 0 \<le> p \<and> p \<le> 1))"
  by (simp add: fallbackFlipSeries_def orEmpty_def Let_def flipLoop.simps flipAt_def
      numeral_2_eq_2 prevOf_def nextOf_def slopeAt_def nearestBoundaryDistance_def boundDist_def
      mathMin_def optMin_def optMax_def tweakUp_def tweakDown_def nudge_def clamp_def eps_def
      dsub_def ovf_fin ovf_pos ovf_neg Math_max_def Math_min_def)

text \<open>
  Claim C5, amended. Every entry of the output that is not \<^verbatim>\<open>null\<close> is a number
  between 0 and 1 or \<^verbatim>\<open>NaN\<close>, whatever the series, the thresholds and the
  climatology; and it is not \<^verbatim>\<open>NaN\<close> when the values and the thresholds have a
  magnitude of at most \<open>2^1023 - 2^970\<close>, so that no difference overflows.
\<close>

theorem fallbackFlipSeries_unit_interval:
  assumes "x \<in> set (fallbackFlipSeries values th clim)"
  shows "(x = JNull \<or> x = JNaN \<or> (\<exists>p. x = JNum p \<and> 0 \<le> p \<and> p \<le> 1))
     \<and> ((\<forall>a \<in> set (orEmpty values). withinSafe a) \<and> withinSafe (optMin th)
          \<and> withinSafe (optMax th) \<longrightarrow> x \<noteq> JNaN)"
proof -
  from assms obtain i where i: "i < length (orEmpty values)"
    and x: "x = fallbackFlipSeries values th clim ! i"
    by (auto simp: in_set_conv_nth fallbackFlipSeries_length)
  let ?arr = "orEmpty values"
  have f: "x = flipAt ?arr th (tweakUp clim) (tweakDown clim) i"
    using i x by (simp add: fallbackFlipSeries_nth)
  have 1: "x = JNull \<or> x = JNaN \<or> (\<exists>p. x = JNum p \<and> 0 \<le> p \<and> p \<le> 1)"
    using flipAt_range [of ?arr th "tweakUp clim" "tweakDown clim" i] f by simp
  have 2: "x \<noteq> JNaN"
    if safe: "\<forall>a \<in> set ?arr. withinSafe a" "withinSafe (optMin th)" "withinSafe (optMax th)"
  proof (cases "x = JNull")
    case True
    then show ?thesis by simp
  next
    case False
    then have n: "isNum (?arr ! i)" and b: "isNum (optMin th) \<or> isNum (optMax th)"
      using f flipAt_null [of ?arr th "tweakUp clim" "tweakDown clim" i] by auto
    from n obtain v where v: "?arr ! i = JNum v" by (cases "?arr ! i") simp_all
    have "withinSafe (JNum v)" using safe(1) i v by (metis nth_mem)
    then have "spec_dist th v + 1 / 1000000 < huge"
      using safe(2,3) b by (rule withinSafe_dist)
    then show ?thesis
      using f flipAt_spec [OF v b, of clim] by simp
  qed
  from 1 2 show ?thesis by blast
qed

theorem fallbackFlipSeries_unit_interval_witness:
  "JNum 1 \<in> set (fallbackFlipSeries (Some [JNum 0, JNum 1000000])
                     (Some \<lparr> th_min = JNull, th_max = JNum 0 \<rparr>)
                     (Some \<lparr> pct_of_normal = JNum 200 \<rparr>))
   \<and> withinSafe (JNum 0) \<and> withinSafe (JNum 1000000) \<and> withinSafe JNull
   \<and> (\<exists>p. JNum 1 = JNum p \<and> 0 \<le> p \<and> p \<le> 1) \<and> JNum 1 \<noteq> JNaN"
proof -
  have m: "JNum 1 \<in> set (fallbackFlipSeries (Some [JNum 0, JNum 1000000])
                     (Some \<lparr> th_min = JNull, th_max = JNum 0 \<rparr>)
                     (Some \<lparr> pct_of_normal = JNum 200 \<rparr>))"
    by (simp add: fallbackFlipSeries_def orEmpty_def Let_def flipLoop.simps flipAt_def
        numeral_2_eq_2 prevOf_def nextOf_def slopeAt_def nearestBoundaryDistance_def boundDist_def
        mathMin_def optMin_def optMax_def tweakUp_def tweakDown_def nudge_def clamp_def eps_def
        dsub_def ovf_fin ovf_pos ovf_neg Math_max_def Math_min_def)
  have s: "withinSafe (JNum 0) \<and> withinSafe (JNum 1000000) \<and> withinSafe JNull"
    by (simp add: withinSafe_def safeMagnitude_def)
  from fallbackFlipSeries_unit_interval [OF m] m s show ?thesis
    by (simp add: orEmpty_def optMin_def optMax_def)
qed

text \<open>
  Claim C10 says that some climatology makes both nudges fire in one call. The two
  conditions are written as independent \<^verbatim>\<open>if\<close> statements, but no percentage is
  above 130 or below 70 and also within 90 and 110: no climatology sets both tweaks.
\<close>

theorem nudges_both_fire_counterexample:
  "\<not> (\<exists>clim. tweakUp clim \<noteq> 0 \<and> tweakDown clim \<noteq> 0)"
  using tweaks_exclusive by blast

text \<open>
  Claim C10, amended. For every climatology at most one of the two tweaks is set, so
  the result of the nudging step is the raw probability, or it plus 0.1 clamped, or it
  minus 0.1 clamped.
\<close>

theorem nudges_exclusive:
  "(tweakUp clim = 0 \<or> tweakDown clim = 0)
   \<and> nudge (tweakUp clim) (tweakDown clim) p
       \<in> {p, clamp (dadd p (DFin (1 / 10))) (DFin 0) (DFin 1),
           clamp (dsub p (DFin (1 / 10))) (DFin 0) (DFin 1)}"
  using tweaks_exclusive [of clim]
  by (auto simp: nudge_def Let_def tweakUp_def tweakDown_def split: option.splits jsval.splits)

section \<open>Properties of the condition-box colouring\<close>

lemma factorFlags_eq:
  "factorFlags key ms (a, f, u) =
     (a \<and> (\<forall>m \<in> set ms. \<not> hasProperty m key \<or> getProperty m key = JBool True),
      f \<or> (\<exists>m \<in> set ms. hasProperty m key \<and> getProperty m key = JBool False),
      u \<or> (\<exists>m \<in> set ms. \<not> hasProperty m key))"
  by (induction ms arbitrary: a f u) (auto simp: Let_def)

text \<open>What \<open>factorColor\<close> computes: an hour without the key leaves \<open>allTrue\<close> as it
  is, so it counts like an hour that is explicitly true.\<close>

lemma factorColor_eq:
  "factorColor key perHour =
     (if perHour = [] then ''warn''
      else if \<exists>m \<in> set perHour. hasProperty m key \<and> getProperty m key = JBool False
        then ''bad''
      else if \<forall>m \<in> set perHour. \<not> hasProperty m key \<or> getProperty m key = JBool True
        then ''good''
      else ''warn'')"
  by (auto simp: factorColor_def factorFlags_eq colorFromBoolMix_def)

text \<open>
  Claim C2 gives \<^verbatim>\<open>"warn"\<close> to a factor whose key is absent from every hour's map.
  On two hours that only carry the key \<^verbatim>\<open>wind\<close>, \<open>factorColor\<close> answers
  \<^verbatim>\<open>"good"\<close> for \<^verbatim>\<open>temp\<close>: \<open>allTrue\<close> is never cleared and \<open>colorFromBoolMix\<close>
  does not read \<open>anyUnknown\<close>.
\<close>

theorem factorColor_all_missing:
  "factorColor ''temp'' [[''wind'' \<mapsto> JBool True], [''wind'' \<mapsto> JBool True]] = ''good''"
  by (simp add: factorColor_def colorFromBoolMix_def hasProperty_def objectPrototypeKeys_def)

section \<open>Properties of the coordinate normalisation\<close>

lemma normalizeCoords_lat:
  "lat (normalizeCoords lat0 lon0) = max (- 90) (min 90 lat0)"
  by (simp add: normalizeCoords_def)

lemma js_rem_nonneg:
  assumes "0 \<le> a" and "0 < n"
  shows "0 \<le> js_rem a n \<and> js_rem a n < n \<and> (\<exists>k::int. js_rem a n = a - n * of_int k)"
proof -
  have q: "0 \<le> a / n" using assms by simp
  have t: "js_trunc (a / n) = \<lfloor>a / n\<rfloor>" using q by (simp add: js_trunc_def)
  have 1: "of_int \<lfloor>a / n\<rfloor> * n \<le> a"
    using assms(2) by (simp add: floor_divide_lower)
  have 2: "a < (of_int \<lfloor>a / n\<rfloor> + 1) * n"
    using assms(2) by (simp add: floor_divide_upper)
  show ?thesis
    using 1 2 by (auto simp: js_rem_def t algebra_simps)
qed

lemma js_rem_neg:
  assumes "a < 0" and "0 < n"
  shows "- n < js_rem a n \<and> js_rem a n \<le> 0"
proof -
  have q: "a / n < 0" using assms by (simp add: divide_neg_pos)
  have t: "js_trunc (a / n) = \<lceil>a / n\<rceil>" using q by (simp add: js_trunc_def)
  have 1: "a \<le> of_int \<lceil>a / n\<rceil> * n"
    using assms(2) by (simp add: ceiling_divide_upper)
  have 2: "(of_int \<lceil>a / n\<rceil> - 1) * n < a"
    using assms(2) by (simp add: ceiling_divide_lower)
  show ?thesis
    using 1 2 by (auto simp: js_rem_def t algebra_simps)
qed

text \<open>From longitude -180 eastwards the result is in \<open>[-180, 180)\<close> and differs from
  the input by a multiple of 360.\<close>

lemma normalizeCoords_lon_east:
  "- 180 \<le> lon0 \<Longrightarrow>
     - 180 \<le> lon (normalizeCoords lat0 lon0) \<and> lon (normalizeCoords lat0 lon0) < 180
     \<and> (\<exists>k::int. lon (normalizeCoords lat0 lon0) = lon0 - 360 * of_int k)"
  using js_rem_nonneg [of "lon0 + 180" 360]
  by (auto simp: normalizeCoords_def Let_def)

text \<open>West of -180 the remainder is not positive, and the result stays below -180.\<close>

lemma normalizeCoords_lon_west:
  "lon0 < - 180 \<Longrightarrow>
     - 540 < lon (normalizeCoords lat0 lon0) \<and> lon (normalizeCoords lat0 lon0) \<le> - 180"
  using js_rem_neg [of "lon0 + 180" 360]
  by (auto simp: normalizeCoords_def Let_def)

lemma normalizeCoords_example:
  "normalizeCoords 91 190 = \<lparr> lat = 90, lon = - 170 \<rparr>"
  by (simp add: normalizeCoords_def js_rem_def js_trunc_def)

lemma ceiling_small: "\<lceil>- (1 / 36 :: real)\<rceil> = 0"
  by (rule ceiling_unique) simp_all

text \<open>
  Claim C3 puts every returned longitude in \<open>[-180, 180)\<close>. A click at longitude -190
  (a world copy west of the date line) comes back unchanged: \<^verbatim>\<open>(-190 + 180) % 360\<close>
  is \<^verbatim>\<open>-10\<close>, the remainder keeping the sign of the dividend.
\<close>

theorem normalizeCoords_west:
  "normalizeCoords 0 (- 190) = \<lparr> lat = 0, lon = - 190 \<rparr>"
  by (simp add: normalizeCoords_def js_rem_def js_trunc_def ceiling_small)

section \<open>Properties of the threshold readers\<close>

text \<open>The first script's \<open>num\<close> tests for the empty string before converting.\<close>

lemma num_empty: "num [] = JNull"
  by (simp add: num_def)

lemma numOrNull_decimal: "numOrNull ''12.5'' = JNum (25 / 2)"
  by (simp add: numOrNull_def Number_def trimWhite_def whiteSeqs_def ovf_fin strUnsignedDecimal_def
      isDec_def digitValue_def exponentPart_def scale10_def Let_def)

lemma numOrNull_text: "numOrNull ''abc'' = JNull"
  by (simp add: numOrNull_def Number_def trimWhite_def whiteSeqs_def ovf_fin strUnsignedDecimal_def
      isDec_def digitValue_def exponentPart_def scale10_def Let_def)

lemma numOrNull_beyond_range: "numOrNull ''1e400'' = JNull"
  by (simp add: numOrNull_def Number_def trimWhite_def whiteSeqs_def ovf_pos strUnsignedDecimal_def
      isDec_def digitValue_def exponentPart_def signedDigits_def scale10_def Let_def)

text \<open>
  Claim C6 turns the empty string into \<^verbatim>\<open>null\<close>, never into zero. \<open>numOrNull\<close>, the
  reader behind \<open>readPrefs\<close>, has no test for the empty string, and
  \<^verbatim>\<open>Number("")\<close> is 0: an empty control becomes the threshold 0.
\<close>

theorem numOrNull_empty: "numOrNull [] = JNum 0"
  by (simp add: numOrNull_def Number_def trimWhite_def)

section \<open>Properties of the Run handlers\<close>

text \<open>The first handler sends nothing without a location or without both times.\<close>

lemma run1_click_no_location:
  "current_lat st = None \<or> current_lon st = None \<Longrightarrow>
     run1_click st f = st\<lparr> planResult1 := BadSpan ''Click the map to choose a location first.'' \<rparr>"
  by (auto simp: run1_click_def split: option.splits)

lemma run1_click_no_times:
  "current_lat st = Some la \<Longrightarrow> current_lon st = Some lo \<Longrightarrow>
   startLocal f = [] \<or> endLocal f = [] \<Longrightarrow>
     run1_click st f = st\<lparr> planResult1 := BadSpan ''Provide a start and end time.'' \<rparr>"
  by (auto simp: run1_click_def)

text \<open>The second handler checks the location only.\<close>

lemma run2_click_no_location:
  "selected_lat st = None \<or> selected_lon st = None \<Longrightarrow>
     run2_click st f = st\<lparr> errorPanel2 := (True, ''Click on the map to choose a location.'') \<rparr>"
  by (auto simp: run2_click_def showError2_def split: option.splits)

text \<open>
  Claim C7 has the handler send no request when a time is missing. The second handler,
  with a location selected and both time controls empty, posts the plan request with
  the two empty strings in its window.
\<close>

theorem run2_click_sends_without_times:
  "sent2 (run2_click
      \<lparr> selected_lat = Some 35, selected_lon = Some (- 106), errorPanel2 = (False, []),
        planResult2 = Blank, condPanel2 = False, suggestPanel2 = False, probPanel2 = False,
        lastResult = None, sent2 = [] \<rparr>
      \<lparr> tripName = [], startLocal = [], endLocal = [], dataSource = ''open-meteo'',
        chkPProb = True, chkPAmt = False, chkTemp = True, chkHum = False, chkWind = False,
        tUnit = ''C'', wUnit = ''mph'', pamtUnit = ''mm'',
        pprobMax = ''30'', pamtMax = [], tMin = ''10'', tMax = ''25'',
        hMin = [], hMax = [], wMin = [], wMax = [] \<rparr>)
   = [PlanTrip
        \<lparr> trip_name = ''My Trip'', body_lat = 35, body_lon = - 106,
          data_source = Some ''open-meteo'', start_local = [], end_local = [],
          body_prefs =
            \<lparr> p_consider =
                \<lparr> c_precip_prob = True, c_precip_amt = False, c_temp = True,
                  c_humidity = False, c_wind = False \<rparr>,
              p_units = \<lparr> u_temp = ''C'', u_wind = ''mph'', u_precip_amt = ''mm'' \<rparr>,
              p_thresholds =
                \<lparr> precip_prob_max = JNum 30, precip_amt_max = JNum 0,
                  temp_min = JNum 10, temp_max = JNum 25,
                  humidity_min = JNum 0, humidity_max = JNum 0,
                  wind_min = JNum 0, wind_max = JNum 0 \<rparr> \<rparr> \<rparr>]"
  by (simp add: run2_click_def hideError_def payload2_def readPrefs_def numOrNull_def
      Number_def trimWhite_def whiteSeqs_def ovf_fin strUnsignedDecimal_def isDec_def digitValue_def
      exponentPart_def scale10_def Let_def)

text \<open>On a failure response the first handler shows the \<^verbatim>\<open>error\<close> field and hides
  both panels.\<close>

lemma run1_response_not_ok:
  "\<not> truthy (r_ok j) \<Longrightarrow> r_error j = Some x \<Longrightarrow> x \<noteq> [] \<Longrightarrow>
     run1_response st (Json j)
       = (showError1 x st)\<lparr> planResult1 := BadSpan x, condPanel1 := False, suggestPanel1 := False \<rparr>"
  by (simp add: run1_response_def orElse_def)

text \<open>
  Claim C8 has the interface show \<^verbatim>\<open>"X"\<close> and hide the condition and suggestion
  panels on \<^verbatim>\<open>{ok:false, error:"X"}\<close>. After an earlier successful run, the second
  handler reads the \<^verbatim>\<open>message\<close> field, shows its default text and leaves the report
  and the three panels as they were.
\<close>

theorem run2_response_not_ok:
  "run2_response
      \<lparr> selected_lat = Some 35, selected_lon = Some (- 106), errorPanel2 = (False, []),
        planResult2 = Report \<lparr> r_ok = JBool True, r_error = None, r_message = None,
                 r_no_data_for_window = JUndefined,
                 r_window = Some (''2025-10-04T10:00'', ''2025-10-04T13:00''),
                 r_conditions = [''Temperature''], r_unideal_spans = [],
                 r_alt_windows = [] \<rparr>,
        condPanel2 = True, suggestPanel2 = True, probPanel2 = True,
        lastResult = Some \<lparr> r_ok = JBool True, r_error = None, r_message = None,
                 r_no_data_for_window = JUndefined,
                 r_window = Some (''2025-10-04T10:00'', ''2025-10-04T13:00''),
                 r_conditions = [''Temperature''], r_unideal_spans = [],
                 r_alt_windows = [] \<rparr>,
        sent2 = [] \<rparr>
      (Json \<lparr> r_ok = JBool False, r_error = Some ''X'', r_message = None,
              r_no_data_for_window = JUndefined, r_window = None, r_conditions = [],
              r_unideal_spans = [], r_alt_windows = [] \<rparr>)
   = \<lparr> selected_lat = Some 35, selected_lon = Some (- 106), errorPanel2 = (True, ''Plan error.''),
        planResult2 = Report \<lparr> r_ok = JBool True, r_error = None, r_message = None,
                 r_no_data_for_window = JUndefined,
                 r_window = Some (''2025-10-04T10:00'', ''2025-10-04T13:00''),
                 r_conditions = [''Temperature''], r_unideal_spans = [],
                 r_alt_windows = [] \<rparr>,
        condPanel2 = True, suggestPanel2 = True, probPanel2 = True,
        lastResult = Some \<lparr> r_ok = JBool True, r_error = None, r_message = None,
                 r_no_data_for_window = JUndefined,
                 r_window = Some (''2025-10-04T10:00'', ''2025-10-04T13:00''),
                 r_conditions = [''Temperature''], r_unideal_spans = [],
                 r_alt_windows = [] \<rparr>,
        sent2 = [] \<rparr>"
  by (simp add: run2_response_def showError2_def orElse_def)

text \<open>
  Claim C9 covers every response with \<^verbatim>\<open>no_data_for_window\<close> and a message. Both
  handlers test \<^verbatim>\<open>ok\<close> first: without it the response is handled as a failure. The
  second handler shows \<^verbatim>\<open>"Y"\<close> and keeps the earlier result and its panels, the
  first one shows \<^verbatim>\<open>Plan failed\<close>.
\<close>

theorem no_data_without_ok_counterexample:
  "run2_response
      \<lparr> selected_lat = Some 35, selected_lon = Some (- 106), errorPanel2 = (False, []),
        planResult2 = Report \<lparr> r_ok = JBool True, r_error = None, r_message = None,
                 r_no_data_for_window = JUndefined,
                 r_window = Some (''2025-10-04T10:00'', ''2025-10-04T13:00''),
                 r_conditions = [''Temperature''], r_unideal_spans = [],
                 r_alt_windows = [] \<rparr>,
        condPanel2 = True, suggestPanel2 = True, probPanel2 = True,
        lastResult = Some \<lparr> r_ok = JBool True, r_error = None, r_message = None,
                 r_no_data_for_window = JUndefined,
                 r_window = Some (''2025-10-04T10:00'', ''2025-10-04T13:00''),
                 r_conditions = [''Temperature''], r_unideal_spans = [],
                 r_alt_windows = [] \<rparr>,
        sent2 = [] \<rparr>
      (Json \<lparr> r_ok = JUndefined, r_error = None, r_message = Some ''Y'',
              r_no_data_for_window = JBool True, r_window = None, r_conditions = [],
              r_unideal_spans = [], r_alt_windows = [] \<rparr>)
   = \<lparr> selected_lat = Some 35, selected_lon = Some (- 106), errorPanel2 = (True, ''Y''),
        planResult2 = Report \<lparr> r_ok = JBool True, r_error = None, r_message = None,
                 r_no_data_for_window = JUndefined,
                 r_window = Some (''2025-10-04T10:00'', ''2025-10-04T13:00''),
                 r_conditions = [''Temperature''], r_unideal_spans = [],
                 r_alt_windows = [] \<rparr>,
        condPanel2 = True, suggestPanel2 = True, probPanel2 = True,
        lastResult = Some \<lparr> r_ok = JBool True, r_error = None, r_message = None,
                 r_no_data_for_window = JUndefined,
                 r_window = Some (''2025-10-04T10:00'', ''2025-10-04T13:00''),
                 r_conditions = [''Temperature''], r_unideal_spans = [],
                 r_alt_windows = [] \<rparr>,
        sent2 = [] \<rparr>
   \<and> planResult1
       (run1_response
          \<lparr> current_lat = Some 35, current_lon = Some (- 106), errorPanel1 = None,
        planResult1 = Evaluating, condPanel1 = True, suggestPanel1 = True, sent1 = [] \<rparr>
          (Json \<lparr> r_ok = JUndefined, r_error = None, r_message = Some ''Y'',
              r_no_data_for_window = JBool True, r_window = None, r_conditions = [],
              r_unideal_spans = [], r_alt_windows = [] \<rparr>))
     = BadSpan ''Plan failed''"
  by (simp add: run2_response_def showError2_def orElse_def run1_response_def showError1_def)

text \<open>
  Claim C9, amended. For a response with a truthy \<^verbatim>\<open>ok\<close>, a truthy
  \<^verbatim>\<open>no_data_for_window\<close> and a non-empty message, the first handler puts the message
  in the result panel and hides the condition and suggestion panels; the second one
  shows the message in the error panel, empties the result panel, hides the three
  panels and clears \<^verbatim>\<open>lastResult\<close>. Neither renders anything else nor sends a request.
\<close>

theorem no_data_for_window_clears:
  assumes "truthy (r_ok j)" and "truthy (r_no_data_for_window j)"
    and "r_message j = Some y" and "y \<noteq> []"
  shows "run1_response st1 (Json j)
           = st1\<lparr> planResult1 := BadSpan y, condPanel1 := False, suggestPanel1 := False \<rparr>
       \<and> run2_response st2 (Json j)
           = st2\<lparr> errorPanel2 := (True, y), planResult2 := Blank, condPanel2 := False,
                  suggestPanel2 := False, probPanel2 := False, lastResult := None \<rparr>"
  using assms
  by (simp add: run1_response_def run2_response_def showError2_def orElse_def template_def)

theorem no_data_for_window_clears_witness:
  "run2_response
      \<lparr> selected_lat = Some 35, selected_lon = Some (- 106), errorPanel2 = (False, []),
        planResult2 = Report \<lparr> r_ok = JBool True, r_error = None, r_message = None,
                 r_no_data_for_window = JUndefined,
                 r_window = Some (''2025-10-04T10:00'', ''2025-10-04T13:00''),
                 r_conditions = [''Temperature''], r_unideal_spans = [],
                 r_alt_windows = [] \<rparr>,
        condPanel2 = True, suggestPanel2 = True, probPanel2 = True,
        lastResult = Some \<lparr> r_ok = JBool True, r_error = None, r_message = None,
                 r_no_data_for_window = JUndefined,
                 r_window = Some (''2025-10-04T10:00'', ''2025-10-04T13:00''),
                 r_conditions = [''Temperature''], r_unideal_spans = [],
                 r_alt_windows = [] \<rparr>,
        sent2 = [] \<rparr>
      (Json \<lparr> r_ok = JBool True, r_error = None, r_message = Some ''Y'',
              r_no_data_for_window = JBool True, r_window = None, r_conditions = [],
              r_unideal_spans = [], r_alt_windows = [] \<rparr>)
   = \<lparr> selected_lat = Some 35, selected_lon = Some (- 106), errorPanel2 = (True, ''Y''),
        planResult2 = Blank,
        condPanel2 = False, suggestPanel2 = False, probPanel2 = False,
        lastResult = None,
        sent2 = [] \<rparr>
   \<and> run1_response
       \<lparr> current_lat = Some 35, current_lon = Some (- 106), errorPanel1 = None,
        planResult1 = Evaluating, condPanel1 = True, suggestPanel1 = True, sent1 = [] \<rparr>
       (Json \<lparr> r_ok = JBool True, r_error = None, r_message = Some ''Y'',
              r_no_data_for_window = JBool True, r_window = None, r_conditions = [],
              r_unideal_spans = [], r_alt_windows = [] \<rparr>)
     = \<lparr> current_lat = Some 35, current_lon = Some (- 106), errorPanel1 = None,
        planResult1 = BadSpan ''Y'', condPanel1 = False, suggestPanel1 = False, sent1 = [] \<rparr>"
  using no_data_for_window_clears
    [of "\<lparr> r_ok = JBool True, r_error = None, r_message = Some ''Y'',
              r_no_data_for_window = JBool True, r_window = None, r_conditions = [],
              r_unideal_spans = [], r_alt_windows = [] \<rparr>"
        "''Y''"
        "\<lparr> current_lat = Some 35, current_lon = Some (- 106), errorPanel1 = None,
        planResult1 = Evaluating, condPanel1 = True, suggestPanel1 = True, sent1 = [] \<rparr>"
        "\<lparr> selected_lat = Some 35, selected_lon = Some (- 106), errorPanel2 = (False, []),
        planResult2 = Report \<lparr> r_ok = JBool True, r_error = None, r_message = None,
                 r_no_data_for_window = JUndefined,
                 r_window = Some (''2025-10-04T10:00'', ''2025-10-04T13:00''),
                 r_conditions = [''Temperature''], r_unideal_spans = [],
                 r_alt_windows = [] \<rparr>,
        condPanel2 = True, suggestPanel2 = True, probPanel2 = True,
        lastResult = Some \<lparr> r_ok = JBool True, r_error = None, r_message = None,
                 r_no_data_for_window = JUndefined,
                 r_window = Some (''2025-10-04T10:00'', ''2025-10-04T13:00''),
                 r_conditions = [''Temperature''], r_unideal_spans = [],
                 r_alt_windows = [] \<rparr>,
        sent2 = [] \<rparr>"]
  by simp

end
